theory Spec2Isabelle
  imports Main
begin

section \<open>The garbage collector of pkg/controller/garbagecollector\<close>

text \<open>
  A shallow embedding of \<^verbatim>\<open>garbage_collector.go\<close>. The functions of that file are
  translated statement by statement. Everything they call outside the file (the API
  server, the dynamic client pool, the REST mapper, the absent-owner cache, the work
  queues) is a collaborator: every call to one is appended to a history of calls, and
  the collaborator's answer is a parameter (\<open>env\<close>) that may depend on the history so
  far. What a function of the collector does is then the history it leaves and the value
  it returns.
\<close>

subsection \<open>Data\<close>

type_synonym UID = string
type_synonym Time = nat

text \<open>\<^verbatim>\<open>metav1.OwnerReference\<close>; the two pointer fields are options.\<close>

record OwnerReference =
  APIVersion :: string
  Kind :: string
  Name :: string
  UID :: UID
  Controller :: "bool option"
  BlockOwnerDeletion :: "bool option"

text \<open>\<^verbatim>\<open>objectReference\<close> embeds an OwnerReference and adds the namespace.\<close>

record objectReference = OwnerReference +
  Namespace :: string

text \<open>
  \<^verbatim>\<open>node\<close>, the vertex of the dependency graph. The map \<^verbatim>\<open>dependents\<close> is the list of
  its keys in the order one \<^verbatim>\<open>range\<close> visits them; the locks are left out.
\<close>

datatype node = Node (identity: objectReference) (dependents: "node list")
  (deletingDependents: bool) (beingDeleted: bool) (owners: "OwnerReference list")

datatype finalizer = FinalizerOrphanDependents | FinalizerDeleteDependents | OtherFinalizer string

datatype DeletionPropagation = DeletePropagationForeground | DeletePropagationDefault

text \<open>
  The metadata of a live object as the dynamic client returns it, named by the accessors
  the collector reads it with.
\<close>

record Unstructured =
  GetUID :: UID
  GetOwnerReferences :: "OwnerReference list"
  GetDeletionTimestamp :: "Time option"
  GetFinalizers :: "finalizer list"

text \<open>
  \<^verbatim>\<open>metaonly.MetadataOnlyObject\<close>: TypeMeta is (APIVersion, Kind), ObjectMeta is
  (Namespace, UID, Name); the fields the collector leaves zero are left out.
\<close>

datatype TypeMeta = TypeMeta string string
datatype ObjectMeta = ObjectMeta string UID string
datatype MetadataOnlyObject = MetadataOnlyObject TypeMeta ObjectMeta

datatype eventType = addEvent | updateEvent | deleteEvent

record event =
  eventType :: eventType
  obj :: MetadataOnlyObject
  oldObj :: "MetadataOnlyObject option"

text \<open>Group, Version and Resource (or Kind), in this order.\<close>

datatype GroupVersionResource = GroupVersionResource string string string
datatype GroupVersionKind = GroupVersionKind string string string

datatype Client = Client GroupVersionKind
datatype APIResource = APIResource string bool

text \<open>
  A patch is the byte string one of two builders makes; both builders live outside this
  file, so a patch is the builder with its arguments.
\<close>

datatype patch =
    deleteOwnerRefPatch UID "UID list"
  | unblockOwnerReferencesPatch UID "OwnerReference list"

text \<open>
  Errors: the API status errors the collector tells apart with \<^verbatim>\<open>errors.IsNotFound\<close>,
  and the two it builds itself with \<^verbatim>\<open>fmt.Errorf\<close>.
\<close>

datatype error =
    NotFound string
  | StatusError string
  | OrphaningFailed objectReference error
  | FailedToOrphanDependents objectReference "error list"

fun IsNotFound :: "error \<Rightarrow> bool" where
  "IsNotFound (NotFound _) = True"
| "IsNotFound _ = False"

text \<open>\<^verbatim>\<open>*cache.Controller\<close>: the informer of one resource, made for one kind with one client.\<close>

datatype monitor = NewInformer Client GroupVersionResource GroupVersionKind

record GarbageCollector =
  monitors :: "monitor list"

subsection \<open>Calls to collaborators\<close>

datatype call =
    AbsentOwnerCache_Has UID
  | AbsentOwnerCache_Add UID
  | ClientPool_ClientForGroupVersionKind GroupVersionKind
  | ApiResource string string bool
  | Resource_Get Client APIResource string string
  | GetObject objectReference
  | PatchObject objectReference patch
  | DeleteObject objectReference DeletionPropagation
  | RemoveFinalizer node finalizer
  | GraphChanges_Add event
  | AttemptToDelete_Add node
  | OrphanQueue_Get
  | OrphanQueue_Done "node option"
  | OrphanQueue_AddRateLimited "node option"
  | RestMapper_KindFor GroupVersionResource
  | MetaOnlyClientPool_ClientForGroupVersionKind GroupVersionKind
  | RegisterIfNotPresent GroupVersionResource Client

text \<open>
  The answers of the collaborators. A Go pair \<^verbatim>\<open>(value, err)\<close> whose value the caller
  reads only when \<^verbatim>\<open>err\<close> is nil is a sum; \<open>resource_Get\<close> keeps the pair, because
  \<^verbatim>\<open>classifyReferences\<close> reads the owner after an error. \<open>accessor\<close> is
  \<^verbatim>\<open>meta.Accessor\<close>, \<open>fromAPIVersionAndKind\<close> is \<^verbatim>\<open>schema.FromAPIVersionAndKind\<close> and
  \<open>patchToUnblockOwnerReferences\<close> is the method of \<^verbatim>\<open>node\<close>: they are pure.
  An item of the orphan queue is a \<^verbatim>\<open>*node\<close> or nil.
\<close>

record env =
  absentOwnerCache_Has :: "call list \<Rightarrow> UID \<Rightarrow> bool"
  fromAPIVersionAndKind :: "string \<Rightarrow> string \<Rightarrow> GroupVersionKind"
  clientPool_ClientForGroupVersionKind :: "call list \<Rightarrow> GroupVersionKind \<Rightarrow> error + Client"
  apiResource :: "call list \<Rightarrow> string \<Rightarrow> string \<Rightarrow> bool \<Rightarrow> error + APIResource"
  resource_Get :: "call list \<Rightarrow> Client \<Rightarrow> APIResource \<Rightarrow> string \<Rightarrow> string
    \<Rightarrow> Unstructured option \<times> error option"
  accessor :: "Unstructured \<Rightarrow> error + Unstructured"
  getObject :: "call list \<Rightarrow> objectReference \<Rightarrow> error + Unstructured"
  patchObject :: "call list \<Rightarrow> objectReference \<Rightarrow> patch \<Rightarrow> error option"
  deleteObject :: "call list \<Rightarrow> objectReference \<Rightarrow> DeletionPropagation \<Rightarrow> error option"
  removeFinalizer :: "call list \<Rightarrow> node \<Rightarrow> finalizer \<Rightarrow> error option"
  patchToUnblockOwnerReferences :: "node \<Rightarrow> error + patch"
  orphanQueue_Get :: "call list \<Rightarrow> node option \<times> bool"
  restMapper_KindFor :: "call list \<Rightarrow> GroupVersionResource \<Rightarrow> error + GroupVersionKind"
  metaOnlyClientPool_ClientForGroupVersionKind :: "call list \<Rightarrow> GroupVersionKind \<Rightarrow> error + Client"

text \<open>What a function returns: its value, or a run-time panic (a nil dereference).\<close>

datatype 'a result = Returns 'a | Panics

subsection \<open>Helpers of the package that are not in the file\<close>

text \<open>
  Modelled from the spec: \<^verbatim>\<open>hasDeleteDependentsFinalizer\<close> is missing from the sources;
  the spec's "carries the delete dependents finalizer".
\<close>

definition hasDeleteDependentsFinalizer :: "Unstructured \<Rightarrow> bool" where
  "hasDeleteDependentsFinalizer a = (FinalizerDeleteDependents \<in> set (GetFinalizers a))"

text \<open>
  Modelled from the spec: \<^verbatim>\<open>node.blockingDependents\<close> is missing from the sources; the
  spec's "subset of this node's dependents whose owner reference to this node has the
  block flag set and who are not yet themselves being deleted".
\<close>

definition blocksOwner :: "node \<Rightarrow> node \<Rightarrow> bool" where
  "blocksOwner n dep =
     (\<exists>owner \<in> set (owners dep). UID owner = UID (identity n) \<and> BlockOwnerDeletion owner = Some True)"

definition blockingDependents :: "node \<Rightarrow> node list" where
  "blockingDependents n = filter (\<lambda>dep. blocksOwner n dep \<and> \<not> beingDeleted dep) (dependents n)"

subsection \<open>The constructor\<close>

definition ignoredResources :: "GroupVersionResource list" where
  "ignoredResources =
    [GroupVersionResource ''extensions'' ''v1beta1'' ''replicationcontrollers'',
     GroupVersionResource '''' ''v1'' ''bindings'',
     GroupVersionResource '''' ''v1'' ''componentstatuses'',
     GroupVersionResource '''' ''v1'' ''events'',
     GroupVersionResource ''authentication.k8s.io'' ''v1beta1'' ''tokenreviews'',
     GroupVersionResource ''authorization.k8s.io'' ''v1beta1'' ''subjectaccessreviews'',
     GroupVersionResource ''authorization.k8s.io'' ''v1beta1'' ''selfsubjectaccessreviews'',
     GroupVersionResource ''authorization.k8s.io'' ''v1beta1'' ''localsubjectaccessreviews'']"

text \<open>
  \<^verbatim>\<open>controllerFor\<close>: ask the metadata-only pool for a client, register its rate limiter,
  build the informer.
\<close>

definition controllerFor ::
  "env \<Rightarrow> GroupVersionResource \<Rightarrow> GroupVersionKind \<Rightarrow> call list \<Rightarrow> call list \<times> (error + monitor)" where
  "controllerFor e resource kind tr =
    (case metaOnlyClientPool_ClientForGroupVersionKind e tr kind of
       Inl err \<Rightarrow> (tr @ [MetaOnlyClientPool_ClientForGroupVersionKind kind], Inl err)
     | Inr client \<Rightarrow>
         (tr @ [MetaOnlyClientPool_ClientForGroupVersionKind kind, RegisterIfNotPresent resource client],
          Inr (NewInformer client resource kind)))"

text \<open>
  The loop of \<^verbatim>\<open>NewGarbageCollector\<close> over the keys of \<^verbatim>\<open>deletableResources\<close>, in the
  order the \<^verbatim>\<open>range\<close> visits them. The state is the history and \<^verbatim>\<open>gc.monitors\<close>; the
  value is \<open>Inl err\<close> where the source returns \<^verbatim>\<open>nil, err\<close>. The source appends a
  variable \<^verbatim>\<open>monitor\<close> where it has just bound \<^verbatim>\<open>controller\<close>: the informer that
  \<^verbatim>\<open>controllerFor\<close> returned is what is appended here.
\<close>

fun monitorsFor ::
  "env \<Rightarrow> GroupVersionResource list \<Rightarrow> call list \<times> monitor list
    \<Rightarrow> call list \<times> (error + monitor list)" where
  "monitorsFor e [] (tr, ms) = (tr, Inr ms)"
| "monitorsFor e (resource # rest) (tr, ms) =
    (if resource \<in> set ignoredResources then monitorsFor e rest (tr, ms)
     else
       (case restMapper_KindFor e tr resource of
          Inl err \<Rightarrow> (tr @ [RestMapper_KindFor resource], Inl err)
        | Inr kind \<Rightarrow>
            (case controllerFor e resource kind (tr @ [RestMapper_KindFor resource]) of
               (tr', Inl err) \<Rightarrow> (tr', Inl err)
             | (tr', Inr controller) \<Rightarrow> monitorsFor e rest (tr', ms @ [controller]))))"

text \<open>
  \<^verbatim>\<open>NewGarbageCollector\<close> returns the Go pair \<^verbatim>\<open>(*GarbageCollector, error)\<close>; the queues,
  the cache and the graph builder it allocates first are collaborators and have no
  field here.
\<close>

definition NewGarbageCollector ::
  "env \<Rightarrow> GroupVersionResource list \<Rightarrow> call list
    \<Rightarrow> call list \<times> GarbageCollector option \<times> error option" where
  "NewGarbageCollector e deletableResources tr =
    (case monitorsFor e deletableResources (tr, []) of
       (tr', Inl err) \<Rightarrow> (tr', None, Some err)
     | (tr', Inr ms) \<Rightarrow> (tr', Some \<lparr>monitors = ms\<rparr>, None))"

subsection \<open>Classifying owner references\<close>

definition objectReferenceToMetadataOnlyObject :: "objectReference \<Rightarrow> MetadataOnlyObject" where
  "objectReferenceToMetadataOnlyObject ref =
     MetadataOnlyObject (TypeMeta (APIVersion ref) (Kind ref))
       (ObjectMeta (Namespace ref) (UID ref) (Name ref))"

record classification =
  solid :: "OwnerReference list"
  dangling :: "OwnerReference list"
  waiting :: "OwnerReference list"

text \<open>
  One pass of the loop body of \<^verbatim>\<open>classifyReferences\<close> ends in \<^verbatim>\<open>continue\<close> (or falls
  off the end of the body), in a \<^verbatim>\<open>return\<close> with an error, or in a panic.
\<close>

datatype step =
    Continue "call list" classification
  | Return "call list" classification error
  | Panic "call list"

text \<open>
  The part of the body after the \<^verbatim>\<open>Get\<close> has been answered without an error, or with
  NotFound (lines 318 to 333): \<open>owner\<close> is the pointer the \<^verbatim>\<open>Get\<close> returned, and
  \<^verbatim>\<open>owner.GetUID()\<close> on a nil pointer panics.
\<close>

definition classifyOwner ::
  "env \<Rightarrow> OwnerReference \<Rightarrow> Unstructured option \<Rightarrow> call list \<Rightarrow> classification \<Rightarrow> step" where
  "classifyOwner e reference owner tr c =
    (case owner of
       None \<Rightarrow> Panic tr
     | Some ownerObj \<Rightarrow>
         if GetUID ownerObj \<noteq> UID reference
         then Continue (tr @ [AbsentOwnerCache_Add (UID reference)])
                (c\<lparr>dangling := dangling c @ [reference]\<rparr>)
         else
           (case accessor e ownerObj of
              Inl err \<Rightarrow> Return tr c err
            | Inr ownerAccessor \<Rightarrow>
                if GetDeletionTimestamp ownerAccessor \<noteq> None
                   \<and> hasDeleteDependentsFinalizer ownerAccessor
                then Continue tr (c\<lparr>waiting := waiting c @ [reference]\<rparr>)
                else Continue tr (c\<lparr>solid := solid c @ [reference]\<rparr>)))"

text \<open>The loop body of \<^verbatim>\<open>classifyReferences\<close> (lines 285 to 333).\<close>

definition classifyReference ::
  "env \<Rightarrow> node \<Rightarrow> OwnerReference \<Rightarrow> call list \<Rightarrow> classification \<Rightarrow> step" where
  "classifyReference e item reference tr c =
    (let tr1 = tr @ [AbsentOwnerCache_Has (UID reference)] in
     if absentOwnerCache_Has e tr (UID reference)
     then Continue tr1 (c\<lparr>dangling := dangling c @ [reference]\<rparr>)
     else
       (let fqKind = fromAPIVersionAndKind e (APIVersion reference) (Kind reference);
            tr2 = tr1 @ [ClientPool_ClientForGroupVersionKind fqKind] in
        case clientPool_ClientForGroupVersionKind e tr1 fqKind of
          Inl err \<Rightarrow> Return tr2 c err
        | Inr client \<Rightarrow>
            (let namespaced = (length (Namespace (identity item)) \<noteq> 0);
                 tr3 = tr2 @ [ApiResource (APIVersion reference) (Kind reference) namespaced] in
             case apiResource e tr2 (APIVersion reference) (Kind reference) namespaced of
               Inl err \<Rightarrow> Return tr3 c err
             | Inr resource \<Rightarrow>
                 (let tr4 = tr3 @ [Resource_Get client resource (Namespace (identity item)) (Name reference)] in
                  case resource_Get e tr3 client resource (Namespace (identity item)) (Name reference) of
                    (owner, Some err) \<Rightarrow>
                      if \<not> IsNotFound err then Return tr4 c err
                      else classifyOwner e reference owner
                             (tr4 @ [AbsentOwnerCache_Add (UID reference)])
                             (c\<lparr>dangling := dangling c @ [reference]\<rparr>)
                  | (owner, None) \<Rightarrow> classifyOwner e reference owner tr4 c))))"

text \<open>The \<^verbatim>\<open>for\<close> loop of \<^verbatim>\<open>classifyReferences\<close>, from a given history and classification.\<close>

fun classifyLoop ::
  "env \<Rightarrow> node \<Rightarrow> OwnerReference list \<Rightarrow> call list \<Rightarrow> classification \<Rightarrow> step" where
  "classifyLoop e item [] tr c = Continue tr c"
| "classifyLoop e item (reference # rest) tr c =
    (case classifyReference e item reference tr c of
       Continue tr' c' \<Rightarrow> classifyLoop e item rest tr' c'
     | Return tr' c' err \<Rightarrow> Return tr' c' err
     | Panic tr' \<Rightarrow> Panic tr')"

text \<open>
  \<^verbatim>\<open>classifyReferences\<close>: the three lists start nil; the value is the Go tuple
  \<^verbatim>\<open>(solid, dangling, waiting, err)\<close>, which \<open>classified\<close> reads off the way the
  loop ended.
\<close>

fun classified :: "step \<Rightarrow> call list \<times> (classification \<times> error option) result" where
  "classified (Continue tr c) = (tr, Returns (c, None))"
| "classified (Return tr c err) = (tr, Returns (c, Some err))"
| "classified (Panic tr) = (tr, Panics)"

definition classifyReferences ::
  "env \<Rightarrow> node \<Rightarrow> OwnerReference list \<Rightarrow> call list
    \<Rightarrow> call list \<times> (classification \<times> error option) result" where
  "classifyReferences e item latestReferences tr =
    classified (classifyLoop e item latestReferences tr \<lparr>solid = [], dangling = [], waiting = []\<rparr>)"

subsection \<open>Processing an item of the delete-attempt queue\<close>

definition generateVirtualDeleteEvent :: "objectReference \<Rightarrow> call list \<Rightarrow> call list" where
  "generateVirtualDeleteEvent ident tr =
    tr @ [GraphChanges_Add
           \<lparr>eventType = deleteEvent, obj = objectReferenceToMetadataOnlyObject ident, oldObj = None\<rparr>]"

primrec ownerRefsToUIDs :: "OwnerReference list \<Rightarrow> UID list" where
  "ownerRefsToUIDs [] = []"
| "ownerRefsToUIDs (ref # refs) = UID ref # ownerRefsToUIDs refs"

text \<open>
  The loop of \<^verbatim>\<open>processDeletingDependentsItem\<close> over the blocking dependents: each one
  that is not itself deleting its dependents is added to the delete-attempt queue.
\<close>

primrec enqueueBlocking :: "node list \<Rightarrow> call list \<Rightarrow> call list" where
  "enqueueBlocking [] tr = tr"
| "enqueueBlocking (dep # rest) tr =
    (if \<not> deletingDependents dep then enqueueBlocking rest (tr @ [AttemptToDelete_Add dep])
     else enqueueBlocking rest tr)"

definition processDeletingDependentsItem ::
  "env \<Rightarrow> node \<Rightarrow> call list \<Rightarrow> call list \<times> error option result" where
  "processDeletingDependentsItem e item tr =
    (let blocking = blockingDependents item in
     if length blocking = 0
     then (tr @ [RemoveFinalizer item FinalizerDeleteDependents],
           Returns (removeFinalizer e tr item FinalizerDeleteDependents))
     else (enqueueBlocking blocking tr, Returns None))"

text \<open>
  The loop of the second case of \<^verbatim>\<open>processItem\<close> (lines 412 to 427) over the
  dependents of the item. \<open>Some err\<close> is the \<^verbatim>\<open>return err\<close> of the body; \<open>None\<close> is
  leaving the loop, by \<^verbatim>\<open>break\<close> or at its end.
\<close>

fun unblockOwnerReferences :: "env \<Rightarrow> node \<Rightarrow> node list \<Rightarrow> call list \<Rightarrow> call list \<times> error option" where
  "unblockOwnerReferences e item [] tr = (tr, None)"
| "unblockOwnerReferences e item (dep # rest) tr =
    (if deletingDependents dep then
       (case patchToUnblockOwnerReferences e item of
          Inl err \<Rightarrow> (tr, Some err)
        | Inr p \<Rightarrow>
            (case patchObject e tr (identity item) p of
               Some err \<Rightarrow> (tr @ [PatchObject (identity item) p], Some err)
             | None \<Rightarrow> (tr @ [PatchObject (identity item) p], None)))
     else unblockOwnerReferences e item rest tr)"

text \<open>The \<^verbatim>\<open>switch\<close> of \<^verbatim>\<open>processItem\<close> on the classification (lines 402 to 433).\<close>

definition decide :: "env \<Rightarrow> node \<Rightarrow> classification \<Rightarrow> call list \<Rightarrow> call list \<times> error option result" where
  "decide e item c tr =
    (if length (solid c) \<noteq> 0 then
       (let p = deleteOwnerRefPatch (UID (identity item))
                  (ownerRefsToUIDs (dangling c) @ ownerRefsToUIDs (waiting c)) in
        (tr @ [PatchObject (identity item) p], Returns (patchObject e tr (identity item) p)))
     else if length (waiting c) \<noteq> 0 \<and> length (dependents item) \<noteq> 0 then
       (case unblockOwnerReferences e item (dependents item) tr of
          (tr', Some err) \<Rightarrow> (tr', Returns (Some err))
        | (tr', None) \<Rightarrow>
            (tr' @ [DeleteObject (identity item) DeletePropagationForeground],
             Returns (deleteObject e tr' (identity item) DeletePropagationForeground)))
     else
       (tr @ [DeleteObject (identity item) DeletePropagationDefault],
        Returns (deleteObject e tr (identity item) DeletePropagationDefault)))"

definition processItem :: "env \<Rightarrow> node \<Rightarrow> call list \<Rightarrow> call list \<times> error option result" where
  "processItem e item tr =
    (if beingDeleted item \<and> \<not> deletingDependents item then (tr, Returns None)
     else
       (let tr1 = tr @ [GetObject (identity item)] in
        case getObject e tr (identity item) of
          Inl err \<Rightarrow>
            if IsNotFound err then (generateVirtualDeleteEvent (identity item) tr1, Returns None)
            else (tr1, Returns (Some err))
        | Inr latest \<Rightarrow>
            if GetUID latest \<noteq> UID (identity item)
            then (generateVirtualDeleteEvent (identity item) tr1, Returns None)
            else if deletingDependents item then processDeletingDependentsItem e item tr1
            else
              (let ownerReferences = GetOwnerReferences latest in
               if length ownerReferences = 0 then (tr1, Returns None)
               else
                 (case classifyReferences e item ownerReferences tr1 of
                    (tr2, Panics) \<Rightarrow> (tr2, Panics)
                  | (tr2, Returns (c, Some err)) \<Rightarrow> (tr2, Returns (Some err))
                  | (tr2, Returns (c, None)) \<Rightarrow> decide e item c tr2))))"

subsection \<open>The orphan worker\<close>

text \<open>
  The loop of \<^verbatim>\<open>orhpanDependents\<close>. Its state is the history and the two slices
  \<^verbatim>\<open>failedDependents\<close> and \<^verbatim>\<open>errorsSlice\<close>; the body appends to the second only.
\<close>

fun orphanLoop ::
  "env \<Rightarrow> objectReference \<Rightarrow> node list \<Rightarrow> call list \<times> objectReference list \<times> error list
    \<Rightarrow> call list \<times> objectReference list \<times> error list" where
  "orphanLoop e owner [] s = s"
| "orphanLoop e owner (dependent # rest) (tr, failedDependents, errorsSlice) =
    (let p = deleteOwnerRefPatch (UID (identity dependent)) [UID owner];
         tr' = tr @ [PatchObject (identity dependent) p] in
     case patchObject e tr (identity dependent) p of
       None \<Rightarrow> orphanLoop e owner rest (tr', failedDependents, errorsSlice)
     | Some err \<Rightarrow>
         if \<not> IsNotFound err
         then orphanLoop e owner rest
                (tr', failedDependents, errorsSlice @ [OrphaningFailed (identity dependent) err])
         else orphanLoop e owner rest (tr', failedDependents, errorsSlice))"

text \<open>
  \<^verbatim>\<open>orhpanDependents\<close>: after the loop, an error that aggregates \<^verbatim>\<open>errorsSlice\<close> if
  \<^verbatim>\<open>failedDependents\<close> is not empty, nil otherwise.
\<close>

definition orhpanDependents ::
  "env \<Rightarrow> objectReference \<Rightarrow> node list \<Rightarrow> call list \<Rightarrow> call list \<times> error option" where
  "orhpanDependents e owner deps tr =
    (case orphanLoop e owner deps (tr, [], []) of
       (tr', failedDependents, errorsSlice) \<Rightarrow>
         if length failedDependents \<noteq> 0
         then (tr', Some (FailedToOrphanDependents owner errorsSlice))
         else (tr', None))"

text \<open>
  \<^verbatim>\<open>attemptToOrphanWorker\<close>. The deferred \<^verbatim>\<open>Done(item)\<close> is the last call on every path
  after the \<^verbatim>\<open>Get\<close>, a panic included. An item that is not a \<^verbatim>\<open>*node\<close> leaves \<^verbatim>\<open>owner\<close>
  nil, and reading its dependents panics.
\<close>

definition attemptToOrphanWorker :: "env \<Rightarrow> call list \<Rightarrow> call list \<times> unit result" where
  "attemptToOrphanWorker e tr =
    (case orphanQueue_Get e tr of
       (item, quit) \<Rightarrow>
         (let tr1 = tr @ [OrphanQueue_Get] in
          if quit then (tr1, Returns ())
          else
            (case item of
               None \<Rightarrow> (tr1 @ [OrphanQueue_Done item], Panics)
             | Some owner \<Rightarrow>
                 (case orhpanDependents e (identity owner) (dependents owner) tr1 of
                    (tr2, Some err) \<Rightarrow>
                      (tr2 @ [OrphanQueue_AddRateLimited item, OrphanQueue_Done item], Returns ())
                  | (tr2, None) \<Rightarrow>
                      (let tr3 = tr2 @ [RemoveFinalizer owner FinalizerOrphanDependents] in
                       case removeFinalizer e tr2 owner FinalizerOrphanDependents of
                         Some err \<Rightarrow>
                           (tr3 @ [OrphanQueue_AddRateLimited item, OrphanQueue_Done item], Returns ())
                       | None \<Rightarrow> (tr3 @ [OrphanQueue_Done item], Returns ()))))))"

subsection \<open>Reading a history\<close>

text \<open>Kinds of calls, to say what a history holds and what it does not.\<close>

fun isDelete :: "call \<Rightarrow> bool" where
  "isDelete (DeleteObject _ _) = True"
| "isDelete _ = False"

fun isRemoveFinalizer :: "call \<Rightarrow> bool" where
  "isRemoveFinalizer (RemoveFinalizer _ _) = True"
| "isRemoveFinalizer _ = False"

text \<open>The resource an informer watches.\<close>

fun watches :: "monitor \<Rightarrow> GroupVersionResource" where
  "watches (NewInformer client resource kind) = resource"

text \<open>The history a pass of the classification loop leaves.\<close>

fun traceOf :: "step \<Rightarrow> call list" where
  "traceOf (Continue tr c) = tr"
| "traceOf (Return tr c err) = tr"
| "traceOf (Panic tr) = tr"

text \<open>The calls \<^verbatim>\<open>classifyReferences\<close> makes.\<close>

fun classifierCall :: "call \<Rightarrow> bool" where
  "classifierCall (AbsentOwnerCache_Has _) = True"
| "classifierCall (AbsentOwnerCache_Add _) = True"
| "classifierCall (ClientPool_ClientForGroupVersionKind _) = True"
| "classifierCall (ApiResource _ _ _) = True"
| "classifierCall (Resource_Get _ _ _ _) = True"
| "classifierCall _ = False"

text \<open>The calls that set up the informer of a resource.\<close>

fun setsUp :: "GroupVersionResource \<Rightarrow> call \<Rightarrow> bool" where
  "setsUp r (RestMapper_KindFor r') = (r = r')"
| "setsUp r (RegisterIfNotPresent r' _) = (r = r')"
| "setsUp _ _ = False"

subsection \<open>A small cluster to run the collector on\<close>

text \<open>
  Collaborators that answer like a cluster holding the objects \<open>objs\<close> (by name): a
  \<^verbatim>\<open>Get\<close> of any other name is NotFound, with \<open>nf\<close> as the pointer returned beside the
  error; the absent-owner cache holds what was added to it; every patch is answered with
  \<open>patchErr\<close>; the orphan queue hands out \<open>queued\<close>; the REST mapper knows every
  resource but \<^verbatim>\<open>widgets\<close>.
\<close>

definition cluster ::
  "(string \<times> Unstructured) list \<Rightarrow> Unstructured option \<Rightarrow> error option \<Rightarrow> node option \<Rightarrow> env" where
  "cluster objs nf patchErr queued =
    \<lparr>absentOwnerCache_Has = (\<lambda>tr u. AbsentOwnerCache_Add u \<in> set tr),
     fromAPIVersionAndKind = (\<lambda>v k. GroupVersionKind [] v k),
     clientPool_ClientForGroupVersionKind = (\<lambda>tr k. Inr (Client k)),
     apiResource = (\<lambda>tr v k n. Inr (APIResource k n)),
     resource_Get = (\<lambda>tr cl res ns name.
        case map_of objs name of None \<Rightarrow> (nf, Some (NotFound name)) | Some ob \<Rightarrow> (Some ob, None)),
     accessor = (\<lambda>ob. Inr ob),
     getObject = (\<lambda>tr ident.
        case map_of objs (Name ident) of None \<Rightarrow> Inl (NotFound (Name ident)) | Some ob \<Rightarrow> Inr ob),
     patchObject = (\<lambda>tr ident p. patchErr),
     deleteObject = (\<lambda>tr ident policy. None),
     removeFinalizer = (\<lambda>tr n f. None),
     patchToUnblockOwnerReferences = (\<lambda>n. Inr (unblockOwnerReferencesPatch (UID (identity n)) (owners n))),
     orphanQueue_Get = (\<lambda>tr. (queued, False)),
     restMapper_KindFor = (\<lambda>tr r. case r of GroupVersionResource g v n \<Rightarrow>
        if n = ''widgets'' then Inl (StatusError ''no kind'') else Inr (GroupVersionKind g v n)),
     metaOnlyClientPool_ClientForGroupVersionKind = (\<lambda>tr k. Inr (Client k))\<rparr>"

definition ownerRef :: "string \<Rightarrow> UID \<Rightarrow> OwnerReference" where
  "ownerRef n u = \<lparr>APIVersion = ''v1'', Kind = ''ReplicaSet'', Name = n, UID = u,
     Controller = None, BlockOwnerDeletion = Some True\<rparr>"

definition podIdentity :: "string \<Rightarrow> UID \<Rightarrow> objectReference" where
  "podIdentity n u = \<lparr>APIVersion = ''v1'', Kind = ''Pod'', Name = n, UID = u,
     Controller = None, BlockOwnerDeletion = None, Namespace = ''default''\<rparr>"

definition liveObject :: "UID \<Rightarrow> OwnerReference list \<Rightarrow> Unstructured" where
  "liveObject u refs = \<lparr>GetUID = u, GetOwnerReferences = refs, GetDeletionTimestamp = None, GetFinalizers = []\<rparr>"

definition cascadingObject :: "UID \<Rightarrow> Unstructured" where
  "cascadingObject u = \<lparr>GetUID = u, GetOwnerReferences = [], GetDeletionTimestamp = Some 1,
     GetFinalizers = [FinalizerDeleteDependents]\<rparr>"

abbreviation rsKind :: GroupVersionKind where
  "rsKind \<equiv> GroupVersionKind [] ''v1'' ''ReplicaSet''"

text \<open>The three calls that resolve and fetch the ReplicaSet \<open>n\<close> for a namespaced item.\<close>

definition fetchReplicaSet :: "string \<Rightarrow> call list" where
  "fetchReplicaSet n = [ClientPool_ClientForGroupVersionKind (GroupVersionKind [] ''v1'' ''ReplicaSet''),
       ApiResource ''v1'' ''ReplicaSet'' True,
       Resource_Get (Client (GroupVersionKind [] ''v1'' ''ReplicaSet''))
         (APIResource ''ReplicaSet'' True) ''default'' n]"

text \<open>
  A pod with three owners on the server: one live, one that does not exist, one in the
  middle of a cascading deletion.
\<close>

definition examplePod :: node where
  "examplePod = Node (podIdentity ''pod'' ''u-pod'') [] False False []"

definition exampleCluster :: env where
  "exampleCluster =
     cluster [(''pod'', liveObject ''u-pod''
                 [ownerRef ''rs-live'' ''u-live'', ownerRef ''rs-gone'' ''u-gone'',
                  ownerRef ''rs-cascading'' ''u-cascading'']),
              (''rs-live'', liveObject ''u-live'' []),
              (''rs-cascading'', cascadingObject ''u-cascading'')] None None None"

text \<open>
  The same pod with five owners on the server: one live, two that do not exist and are in
  the absent-owner cache already, two in the middle of a cascading deletion.
\<close>

definition staleCluster :: env where
  "staleCluster =
     cluster [(''pod'', liveObject ''u-pod''
                 [ownerRef ''rs-live'' ''u-live'', ownerRef ''rs-gone'' ''u-gone'',
                  ownerRef ''rs-lost'' ''u-lost'', ownerRef ''rs-cascading'' ''u-cascading'',
                  ownerRef ''rs-draining'' ''u-draining'']),
              (''rs-live'', liveObject ''u-live'' []),
              (''rs-cascading'', cascadingObject ''u-cascading''),
              (''rs-draining'', cascadingObject ''u-draining'')] None None None"

definition cachedAbsent :: "call list" where
  "cachedAbsent = [AbsentOwnerCache_Add ''u-gone'', AbsentOwnerCache_Add ''u-lost'']"

text \<open>
  A pod whose only owner is in a cascading deletion and whose own dependent is deleting
  its dependents too.
\<close>

definition midPod :: node where
  "midPod = Node (podIdentity ''pod'' ''u-pod'')
     [Node (podIdentity ''child'' ''u-child'') [] True True [ownerRef ''pod'' ''u-pod'']]
     False False [ownerRef ''rs-cascading'' ''u-cascading'']"

definition cascadeCluster :: env where
  "cascadeCluster =
     cluster [(''pod'', liveObject ''u-pod'' [ownerRef ''rs-cascading'' ''u-cascading'']),
              (''child'', cascadingObject ''u-child''),
              (''rs-cascading'', cascadingObject ''u-cascading'')] None None None"

text \<open>
  An owner in foreground deletion with a dependent that blocks it and one that does not,
  and the same owner once the blocking dependent is gone.
\<close>

definition blockedOwner :: node where
  "blockedOwner = Node (podIdentity ''owner'' ''u-owner'')
     [Node (podIdentity ''d1'' ''u-d1'') [] False False [ownerRef ''owner'' ''u-owner''],
      Node (podIdentity ''d2'' ''u-d2'') [] False False
        [(ownerRef ''owner'' ''u-owner'')\<lparr>BlockOwnerDeletion := Some False\<rparr>]]
     True True []"

definition freeOwner :: node where
  "freeOwner = Node (podIdentity ''owner'' ''u-owner'')
     [Node (podIdentity ''d2'' ''u-d2'') [] False False
        [(ownerRef ''owner'' ''u-owner'')\<lparr>BlockOwnerDeletion := Some False\<rparr>]]
     True True []"

definition events :: GroupVersionResource where
  "events = GroupVersionResource [] ''v1'' ''events''"

definition pods :: GroupVersionResource where
  "pods = GroupVersionResource [] ''v1'' ''pods''"

text \<open>An owner to be orphaned, in a cluster that answers every patch with a conflict.\<close>

definition orphanedOwner :: node where
  "orphanedOwner = Node (podIdentity ''rs'' ''u-rs'')
     [Node (podIdentity ''pod'' ''u-pod'') [] False False [ownerRef ''rs'' ''u-rs'']]
     False True []"

definition conflictCluster :: env where
  "conflictCluster = cluster [] None (Some (StatusError ''conflict'')) (Some orphanedOwner)"

section \<open>Evaluating the model\<close>

lemmas model_defs = classifyReferences_def classifyReference_def classifyOwner_def
  hasDeleteDependentsFinalizer_def processItem_def decide_def generateVirtualDeleteEvent_def
  objectReferenceToMetadataOnlyObject_def processDeletingDependentsItem_def
  blockingDependents_def blocksOwner_def orhpanDependents_def attemptToOrphanWorker_def
  NewGarbageCollector_def controllerFor_def ignoredResources_def

lemma cluster_answers:
  "absentOwnerCache_Has (cluster objs nf patchErr queued) tr u = (AbsentOwnerCache_Add u \<in> set tr)"
  "fromAPIVersionAndKind (cluster objs nf patchErr queued) v k = GroupVersionKind [] v k"
  "clientPool_ClientForGroupVersionKind (cluster objs nf patchErr queued) tr gvk = Inr (Client gvk)"
  "apiResource (cluster objs nf patchErr queued) tr v k namespaced = Inr (APIResource k namespaced)"
  "resource_Get (cluster objs nf patchErr queued) tr cl res ns name =
     (case map_of objs name of None \<Rightarrow> (nf, Some (NotFound name)) | Some ob \<Rightarrow> (Some ob, None))"
  "accessor (cluster objs nf patchErr queued) ob = Inr ob"
  "getObject (cluster objs nf patchErr queued) tr ident =
     (case map_of objs (Name ident) of None \<Rightarrow> Inl (NotFound (Name ident)) | Some ob \<Rightarrow> Inr ob)"
  "patchObject (cluster objs nf patchErr queued) tr ident p = patchErr"
  "deleteObject (cluster objs nf patchErr queued) tr ident policy = None"
  "removeFinalizer (cluster objs nf patchErr queued) tr item f = None"
  "patchToUnblockOwnerReferences (cluster objs nf patchErr queued) item =
     Inr (unblockOwnerReferencesPatch (UID (identity item)) (owners item))"
  "orphanQueue_Get (cluster objs nf patchErr queued) tr = (queued, False)"
  "restMapper_KindFor (cluster objs nf patchErr queued) tr (GroupVersionResource g v r) =
     (if r = ''widgets'' then Inl (StatusError ''no kind'') else Inr (GroupVersionKind g v r))"
  "metaOnlyClientPool_ClientForGroupVersionKind (cluster objs nf patchErr queued) tr gvk = Inr (Client gvk)"
  by (simp_all add: cluster_def)

lemmas scenario_defs = cluster_answers ownerRef_def podIdentity_def liveObject_def
  cascadingObject_def Let_def

section \<open>The loops\<close>

text \<open>The classification loop over a list that is split in two runs the halves in turn.\<close>

lemma classifyLoop_append:
  "classifyLoop e item (xs @ ys) tr c =
    (case classifyLoop e item xs tr c of
       Continue tr' c' \<Rightarrow> classifyLoop e item ys tr' c'
     | Return tr' c' err \<Rightarrow> Return tr' c' err
     | Panic tr' \<Rightarrow> Panic tr')"
  by (induction xs arbitrary: tr c) (auto split: step.splits)

lemma classified_Continue:
  "classified s = (tr, Returns (c, None)) \<Longrightarrow> s = Continue tr c"
  by (cases s) auto

lemma classifyReferences_prefix:
  assumes "classifyReferences e item pre tr0 = (tr, Returns (c, None))"
  shows "classifyReferences e item (pre @ rest) tr0 = classified (classifyLoop e item rest tr c)"
  using assms unfolding classifyReferences_def
  by (auto simp: classifyLoop_append dest!: classified_Continue)

text \<open>Classifying only ever appends calls of the classifier to the history.\<close>

lemma classifyOwner_trace:
  "\<exists>new. traceOf (classifyOwner e reference owner tr c) = tr @ new \<and> list_all classifierCall new"
  by (auto simp: classifyOwner_def split: option.splits sum.splits)

lemma classifyReference_trace:
  "\<exists>new. traceOf (classifyReference e item reference tr c) = tr @ new \<and> list_all classifierCall new"
proof -
  have owner: "\<exists>new. traceOf (classifyOwner e reference owner (tr @ pre) c') = tr @ new
      \<and> list_all classifierCall new" if "list_all classifierCall pre" for owner pre c'
    using classifyOwner_trace [of e reference owner "tr @ pre" c'] that by auto
  show ?thesis
    unfolding classifyReference_def Let_def
    by (auto split: sum.splits prod.splits option.splits intro!: owner [simplified])
qed

lemma classifyLoop_trace:
  "\<exists>new. traceOf (classifyLoop e item refs tr c) = tr @ new \<and> list_all classifierCall new"
proof (induction refs arbitrary: tr c)
  case Nil
  then show ?case by simp
next
  case (Cons reference rest)
  obtain new where new: "traceOf (classifyReference e item reference tr c) = tr @ new"
    "list_all classifierCall new"
    using classifyReference_trace by blast
  show ?case
  proof (cases "classifyReference e item reference tr c")
    case (Continue tr' c')
    with new have tr': "tr' = tr @ new" by simp
    from Cons.IH [of tr' c'] obtain more where
      "traceOf (classifyLoop e item rest tr' c') = tr' @ more" "list_all classifierCall more"
      by blast
    with Continue tr' new(2) show ?thesis by auto
  next
    case (Return tr' c' err)
    with new show ?thesis by auto
  next
    case (Panic tr')
    with new show ?thesis by auto
  qed
qed

lemma classifyReferences_trace:
  assumes "classifyReferences e item refs tr = (tr', r)"
  shows "\<exists>new. tr' = tr @ new \<and> list_all classifierCall new"
proof -
  have "fst (classified s) = traceOf s" for s by (cases s) auto
  with assms classifyLoop_trace [of e item refs tr "\<lparr>solid = [], dangling = [], waiting = []\<rparr>"]
  show ?thesis unfolding classifyReferences_def by (metis fst_conv)
qed

text \<open>
  Once the item was fetched and its references were classified, \<^verbatim>\<open>processItem\<close> is its
  \<^verbatim>\<open>switch\<close>.
\<close>

lemma processItem_classified:
  assumes "\<not> beingDeleted item" and "\<not> deletingDependents item"
    and "getObject e tr (identity item) = Inr latest"
    and "GetUID latest = UID (identity item)"
    and "GetOwnerReferences latest \<noteq> []"
    and "classifyReferences e item (GetOwnerReferences latest) (tr @ [GetObject (identity item)])
          = (tr2, Returns (c, None))"
  shows "processItem e item tr = decide e item c tr2"
  using assms by (simp add: processItem_def)

text \<open>The UIDs \<^verbatim>\<open>ownerRefsToUIDs\<close> collects are those of the references, one each, in order.\<close>

lemma ownerRefsToUIDs_map:
  "ownerRefsToUIDs refs = map UID refs"
  by (induction refs) simp_all

lemma enqueueBlocking_eq:
  "enqueueBlocking deps tr = tr @ map AttemptToDelete_Add (filter (\<lambda>dep. \<not> deletingDependents dep) deps)"
  by (induction deps arbitrary: tr) auto

text \<open>
  The scan of the dependents stops at the first one that is deleting its dependents, so
  it sends one patch or none.
\<close>

lemma unblock_none:
  "\<not> list_ex deletingDependents deps \<Longrightarrow> unblockOwnerReferences e item deps tr = (tr, None)"
  by (induction deps) auto

lemma unblock_some:
  "list_ex deletingDependents deps \<Longrightarrow>
   unblockOwnerReferences e item deps tr =
     (case patchToUnblockOwnerReferences e item of
        Inl err \<Rightarrow> (tr, Some err)
      | Inr p \<Rightarrow> (tr @ [PatchObject (identity item) p], patchObject e tr (identity item) p))"
  by (induction deps) (auto split: sum.splits option.splits)

text \<open>The loop of the constructor, split in two; ignored resources change nothing.\<close>

lemma monitorsFor_append:
  "monitorsFor e (xs @ ys) (tr, ms) =
    (case monitorsFor e xs (tr, ms) of
       (tr', Inl err) \<Rightarrow> (tr', Inl err)
     | (tr', Inr ms') \<Rightarrow> monitorsFor e ys (tr', ms'))"
  by (induction xs arbitrary: tr ms) (auto simp: controllerFor_def split: sum.splits prod.splits)

lemma monitorsFor_filter:
  "monitorsFor e (filter (\<lambda>r. r \<notin> set ignoredResources) rs) (tr, ms) = monitorsFor e rs (tr, ms)"
  by (induction rs arbitrary: tr ms) (auto split: sum.splits prod.splits)

lemma monitorsFor_ignored:
  assumes "resource \<in> set ignoredResources"
  shows "\<exists>new. fst (monitorsFor e rs (tr, ms)) = tr @ new \<and> \<not> list_ex (setsUp resource) new
     \<and> (\<forall>ms'. snd (monitorsFor e rs (tr, ms)) = Inr ms' \<longrightarrow>
          (\<exists>added. ms' = ms @ added \<and> resource \<notin> watches ` set added))"
proof (induction rs arbitrary: tr ms)
  case Nil
  then show ?case by simp
next
  case (Cons r rest)
  show ?case
  proof (cases "r \<in> set ignoredResources")
    case True
    with Cons.IH [of tr ms] show ?thesis by simp
  next
    case False
    with assms have ne: "resource \<noteq> r" by auto
    show ?thesis
    proof (cases "restMapper_KindFor e tr r")
      case (Inl err)
      with False ne show ?thesis by simp
    next
      case (Inr kind)
      show ?thesis
      proof (cases "metaOnlyClientPool_ClientForGroupVersionKind e (tr @ [RestMapper_KindFor r]) kind")
        case (Inl err)
        with False ne Inr show ?thesis by (simp add: controllerFor_def)
      next
        case client: (Inr client)
        let ?tr' = "tr @ [RestMapper_KindFor r, MetaOnlyClientPool_ClientForGroupVersionKind kind,
                       RegisterIfNotPresent r client]"
        let ?ms' = "ms @ [NewInformer client r kind]"
        have step: "monitorsFor e (r # rest) (tr, ms) = monitorsFor e rest (?tr', ?ms')"
          using False Inr client by (simp add: controllerFor_def)
        from Cons.IH [of ?tr' ?ms'] obtain new where new:
          "fst (monitorsFor e rest (?tr', ?ms')) = ?tr' @ new" "\<not> list_ex (setsUp resource) new"
          "\<forall>ms''. snd (monitorsFor e rest (?tr', ?ms')) = Inr ms'' \<longrightarrow>
             (\<exists>added. ms'' = ?ms' @ added \<and> resource \<notin> watches ` set added)"
          by blast
        have "fst (monitorsFor e (r # rest) (tr, ms)) =
            tr @ ([RestMapper_KindFor r, MetaOnlyClientPool_ClientForGroupVersionKind kind,
                   RegisterIfNotPresent r client] @ new)"
          using step new(1) by simp
        moreover have "\<not> list_ex (setsUp resource)
            ([RestMapper_KindFor r, MetaOnlyClientPool_ClientForGroupVersionKind kind,
              RegisterIfNotPresent r client] @ new)"
          using new(2) ne by simp
        moreover have "\<forall>ms''. snd (monitorsFor e (r # rest) (tr, ms)) = Inr ms'' \<longrightarrow>
            (\<exists>added. ms'' = ms @ added \<and> resource \<notin> watches ` set added)"
        proof (intro allI impI)
          fix ms'' assume "snd (monitorsFor e (r # rest) (tr, ms)) = Inr ms''"
          with step new(3) obtain added where
            "ms'' = ?ms' @ added" "resource \<notin> watches ` set added" by auto
          then have "ms'' = ms @ (NewInformer client r kind # added)"
            "resource \<notin> watches ` set (NewInformer client r kind # added)"
            using ne by auto
          then show "\<exists>added. ms'' = ms @ added \<and> resource \<notin> watches ` set added" by blast
        qed
        ultimately show ?thesis by blast
      qed
    qed
  qed
qed

text \<open>The constructor returns a collector or an error, never both and never neither.\<close>

lemma NewGarbageCollector_shape:
  "(\<exists>gc. snd (NewGarbageCollector e rs tr) = (Some gc, None))
   \<or> (\<exists>err. snd (NewGarbageCollector e rs tr) = (None, Some err))"
  by (auto simp: NewGarbageCollector_def split: prod.splits sum.splits)

section \<open>The constructor\<close>

text \<open>
  Claim C9. For every resource of the static ignored set, \<^verbatim>\<open>NewGarbageCollector\<close> creates
  no monitor even when the resource is listed in \<^verbatim>\<open>deletableResources\<close>: the constructor
  makes no call that sets the resource up (no kind is resolved for it, no rate limiter is
  registered for it), no informer of the collector it returns watches the resource, and
  the whole construction is the one of the list without the ignored resources.
\<close>

theorem ignored_resources_not_monitored:
  assumes "resource \<in> set ignoredResources"
  shows "(\<exists>new. fst (NewGarbageCollector e deletableResources tr) = tr @ new
            \<and> \<not> list_ex (setsUp resource) new)
       \<and> (\<forall>gc. fst (snd (NewGarbageCollector e deletableResources tr)) = Some gc
            \<longrightarrow> resource \<notin> watches ` set (monitors gc))
       \<and> NewGarbageCollector e deletableResources tr =
           NewGarbageCollector e (filter (\<lambda>r. r \<notin> set ignoredResources) deletableResources) tr"
proof -
  from monitorsFor_ignored [OF assms, of e deletableResources tr "[]"]
  obtain new where new: "fst (monitorsFor e deletableResources (tr, [])) = tr @ new"
    "\<not> list_ex (setsUp resource) new"
    "\<forall>ms'. snd (monitorsFor e deletableResources (tr, [])) = Inr ms' \<longrightarrow>
       (\<exists>added. ms' = [] @ added \<and> resource \<notin> watches ` set added)"
    by blast
  have "fst (NewGarbageCollector e deletableResources tr) = fst (monitorsFor e deletableResources (tr, []))"
    by (simp add: NewGarbageCollector_def split: prod.splits sum.splits)
  with new(1,2) have a: "\<exists>new. fst (NewGarbageCollector e deletableResources tr) = tr @ new
            \<and> \<not> list_ex (setsUp resource) new" by auto
  have b: "\<forall>gc. fst (snd (NewGarbageCollector e deletableResources tr)) = Some gc
            \<longrightarrow> resource \<notin> watches ` set (monitors gc)"
    using new(3) by (auto simp: NewGarbageCollector_def split: prod.splits sum.splits)
  have c: "NewGarbageCollector e deletableResources tr =
           NewGarbageCollector e (filter (\<lambda>r. r \<notin> set ignoredResources) deletableResources) tr"
    by (simp add: NewGarbageCollector_def monitorsFor_filter)
  from a b c show ?thesis by blast
qed

theorem ignored_resources_not_monitored_witness:
  "events \<in> set ignoredResources
   \<and> NewGarbageCollector exampleCluster [events, pods] [] =
       ([RestMapper_KindFor pods,
         MetaOnlyClientPool_ClientForGroupVersionKind (GroupVersionKind [] ''v1'' ''pods''),
         RegisterIfNotPresent pods (Client (GroupVersionKind [] ''v1'' ''pods''))],
        Some \<lparr>monitors = [NewInformer (Client (GroupVersionKind [] ''v1'' ''pods'')) pods
                             (GroupVersionKind [] ''v1'' ''pods'')]\<rparr>,
        None)
   \<and> NewGarbageCollector exampleCluster [events, pods] [] = NewGarbageCollector exampleCluster [pods] []"
proof -
  have ign: "events \<in> set ignoredResources"
    by (simp add: events_def ignoredResources_def)
  note ignored_resources_not_monitored [OF ign, of exampleCluster "[events, pods]" "[]"]
  then show ?thesis
    by (simp add: model_defs scenario_defs exampleCluster_def events_def pods_def)
qed

text \<open>
  Claim C10. \<^verbatim>\<open>NewGarbageCollector\<close> fails atomically. Let the resources before
  \<open>resource\<close> be set up without an error, leaving the history \<open>tr1\<close>. If
  \<open>resource\<close> is not ignored and resolving its kind fails, or its kind resolves and
  \<^verbatim>\<open>controllerFor\<close> fails, then the constructor returns a nil collector together with
  that error, whatever resources follow.
\<close>

theorem constructor_fails_atomically:
  assumes "NewGarbageCollector e pre tr = (tr1, Some gc1, None)"
    and "resource \<notin> set ignoredResources"
    and "restMapper_KindFor e tr1 resource = Inl err
       \<or> (\<exists>kind. restMapper_KindFor e tr1 resource = Inr kind
            \<and> snd (controllerFor e resource kind (tr1 @ [RestMapper_KindFor resource])) = Inl err)"
  shows "snd (NewGarbageCollector e (pre @ resource # post) tr) = (None, Some err)"
proof -
  from assms(1) have "monitorsFor e pre (tr, []) = (tr1, Inr (monitors gc1))"
    by (auto simp: NewGarbageCollector_def split: prod.splits sum.splits)
  then have split: "monitorsFor e (pre @ resource # post) (tr, []) =
      monitorsFor e (resource # post) (tr1, monitors gc1)"
    by (simp add: monitorsFor_append)
  have "\<exists>tr'. monitorsFor e (resource # post) (tr1, monitors gc1) = (tr', Inl err)"
    using assms(3)
  proof
    assume "restMapper_KindFor e tr1 resource = Inl err"
    with assms(2) show ?thesis by simp
  next
    assume "\<exists>kind. restMapper_KindFor e tr1 resource = Inr kind
            \<and> snd (controllerFor e resource kind (tr1 @ [RestMapper_KindFor resource])) = Inl err"
    then obtain kind tr' where "restMapper_KindFor e tr1 resource = Inr kind"
      "controllerFor e resource kind (tr1 @ [RestMapper_KindFor resource]) = (tr', Inl err)"
      by (metis prod.collapse)
    with assms(2) show ?thesis by simp
  qed
  with split obtain tr' where "monitorsFor e (pre @ resource # post) (tr, []) = (tr', Inl err)"
    by auto
  then show ?thesis by (simp add: NewGarbageCollector_def)
qed

theorem constructor_fails_atomically_witness:
  "NewGarbageCollector exampleCluster [events, pods] [] =
       ([RestMapper_KindFor pods,
         MetaOnlyClientPool_ClientForGroupVersionKind (GroupVersionKind [] ''v1'' ''pods''),
         RegisterIfNotPresent pods (Client (GroupVersionKind [] ''v1'' ''pods''))],
        Some \<lparr>monitors = [NewInformer (Client (GroupVersionKind [] ''v1'' ''pods'')) pods
                             (GroupVersionKind [] ''v1'' ''pods'')]\<rparr>,
        None)
   \<and> GroupVersionResource [] ''v1'' ''widgets'' \<notin> set ignoredResources
   \<and> restMapper_KindFor exampleCluster
        [RestMapper_KindFor pods,
         MetaOnlyClientPool_ClientForGroupVersionKind (GroupVersionKind [] ''v1'' ''pods''),
         RegisterIfNotPresent pods (Client (GroupVersionKind [] ''v1'' ''pods''))]
        (GroupVersionResource [] ''v1'' ''widgets'') = Inl (StatusError ''no kind'')
   \<and> snd (NewGarbageCollector exampleCluster
        [events, pods, GroupVersionResource [] ''v1'' ''widgets'',
         GroupVersionResource [] ''v1'' ''secrets''] [])
      = (None, Some (StatusError ''no kind''))"
proof -
  let ?tr1 = "[RestMapper_KindFor pods,
         MetaOnlyClientPool_ClientForGroupVersionKind (GroupVersionKind [] ''v1'' ''pods''),
         RegisterIfNotPresent pods (Client (GroupVersionKind [] ''v1'' ''pods''))]"
  let ?gc = "\<lparr>monitors = [NewInformer (Client (GroupVersionKind [] ''v1'' ''pods'')) pods
                             (GroupVersionKind [] ''v1'' ''pods'')]\<rparr>"
  let ?w = "GroupVersionResource [] ''v1'' ''widgets''"
  have pre: "NewGarbageCollector exampleCluster [events, pods] [] = (?tr1, Some ?gc, None)"
    by (simp add: model_defs scenario_defs exampleCluster_def events_def pods_def)
  have ni: "?w \<notin> set ignoredResources"
    by (simp add: ignoredResources_def)
  have fails: "restMapper_KindFor exampleCluster ?tr1 ?w = Inl (StatusError ''no kind'')
       \<or> (\<exists>kind. restMapper_KindFor exampleCluster ?tr1 ?w = Inr kind
            \<and> snd (controllerFor exampleCluster ?w kind (?tr1 @ [RestMapper_KindFor ?w]))
                = Inl (StatusError ''no kind''))"
    by (simp add: scenario_defs exampleCluster_def)
  note constructor_fails_atomically [OF pre ni fails, of "[GroupVersionResource [] ''v1'' ''secrets'']"]
  then show ?thesis
    by (simp add: model_defs scenario_defs exampleCluster_def events_def pods_def)
qed

section \<open>Classifying owner references\<close>

text \<open>
  Claim C8. When the loop of \<^verbatim>\<open>classifyReferences\<close> reaches a reference whose UID the
  absent-owner cache holds (the references before it were classified as \<open>c\<close>, leaving
  the history \<open>tr\<close>), the reference is appended to \<^verbatim>\<open>dangling\<close>, the question put to
  the cache is the only call made for it (no kind is resolved, no \<^verbatim>\<open>Get\<close> is issued, so
  neither can abort the classification), and the loop goes on with the remaining
  references.
\<close>

theorem cached_absent_owner_is_dangling:
  assumes "classifyReferences e item pre tr0 = (tr, Returns (c, None))"
    and "absentOwnerCache_Has e tr (UID reference)"
  shows "classifyReferences e item (pre @ reference # rest) tr0 =
     classified (classifyLoop e item rest (tr @ [AbsentOwnerCache_Has (UID reference)])
        (c\<lparr>dangling := dangling c @ [reference]\<rparr>))"
  using assms by (simp add: classifyReferences_prefix classifyReference_def)

theorem cached_absent_owner_is_dangling_witness:
  "classifyReferences
     (cluster [(''rs-live'', liveObject ''u-live'' [])] None None None)
     (Node (podIdentity ''pod'' ''u-pod'') [] False False [])
     [ownerRef ''rs-live'' ''u-live''] [AbsentOwnerCache_Add ''u-gone'']
   = ([AbsentOwnerCache_Add ''u-gone'', AbsentOwnerCache_Has ''u-live'',
       ClientPool_ClientForGroupVersionKind (GroupVersionKind [] ''v1'' ''ReplicaSet''),
       ApiResource ''v1'' ''ReplicaSet'' True,
       Resource_Get (Client (GroupVersionKind [] ''v1'' ''ReplicaSet''))
         (APIResource ''ReplicaSet'' True) ''default'' ''rs-live''],
      Returns (\<lparr>solid = [ownerRef ''rs-live'' ''u-live''], dangling = [], waiting = []\<rparr>, None))
   \<and> absentOwnerCache_Has (cluster [(''rs-live'', liveObject ''u-live'' [])] None None None)
       [AbsentOwnerCache_Add ''u-gone'', AbsentOwnerCache_Has ''u-live'',
        ClientPool_ClientForGroupVersionKind (GroupVersionKind [] ''v1'' ''ReplicaSet''),
        ApiResource ''v1'' ''ReplicaSet'' True,
        Resource_Get (Client (GroupVersionKind [] ''v1'' ''ReplicaSet''))
          (APIResource ''ReplicaSet'' True) ''default'' ''rs-live'']
       (UID (ownerRef ''rs-gone'' ''u-gone''))
   \<and> classifyReferences
     (cluster [(''rs-live'', liveObject ''u-live'' [])] None None None)
     (Node (podIdentity ''pod'' ''u-pod'') [] False False [])
     [ownerRef ''rs-live'' ''u-live'', ownerRef ''rs-gone'' ''u-gone''] [AbsentOwnerCache_Add ''u-gone'']
   = ([AbsentOwnerCache_Add ''u-gone'', AbsentOwnerCache_Has ''u-live'',
       ClientPool_ClientForGroupVersionKind (GroupVersionKind [] ''v1'' ''ReplicaSet''),
       ApiResource ''v1'' ''ReplicaSet'' True,
       Resource_Get (Client (GroupVersionKind [] ''v1'' ''ReplicaSet''))
         (APIResource ''ReplicaSet'' True) ''default'' ''rs-live'',
       AbsentOwnerCache_Has ''u-gone''],
      Returns (\<lparr>solid = [ownerRef ''rs-live'' ''u-live''],
                 dangling = [ownerRef ''rs-gone'' ''u-gone''], waiting = []\<rparr>, None))"
proof -
  let ?e = "cluster [(''rs-live'', liveObject ''u-live'' [])] None None None"
  let ?item = "Node (podIdentity ''pod'' ''u-pod'') [] False False []"
  let ?tr = "[AbsentOwnerCache_Add ''u-gone'', AbsentOwnerCache_Has ''u-live'',
       ClientPool_ClientForGroupVersionKind (GroupVersionKind [] ''v1'' ''ReplicaSet''),
       ApiResource ''v1'' ''ReplicaSet'' True,
       Resource_Get (Client (GroupVersionKind [] ''v1'' ''ReplicaSet''))
         (APIResource ''ReplicaSet'' True) ''default'' ''rs-live'']"
  have pre: "classifyReferences ?e ?item [ownerRef ''rs-live'' ''u-live''] [AbsentOwnerCache_Add ''u-gone'']
     = (?tr, Returns (\<lparr>solid = [ownerRef ''rs-live'' ''u-live''], dangling = [], waiting = []\<rparr>, None))"
    by (simp add: model_defs scenario_defs)
  have hit: "absentOwnerCache_Has ?e ?tr (UID (ownerRef ''rs-gone'' ''u-gone''))"
    by (simp add: scenario_defs)
  from cached_absent_owner_is_dangling [OF pre hit, of "[]"] pre hit show ?thesis by (simp add: ownerRef_def)
qed

text \<open>
  Claim C6. When the loop of \<^verbatim>\<open>classifyReferences\<close> reaches a reference that is not in
  the absent-owner cache, whose kind resolves and whose \<^verbatim>\<open>Get\<close> returns a live object
  with the UID of the reference, the reference is appended to \<^verbatim>\<open>waiting\<close> if and only
  if the object has a deletion timestamp and carries the finalizer
  \<^verbatim>\<open>FinalizerDeleteDependents\<close>, and to \<^verbatim>\<open>solid\<close> in every other case; the loop then
  goes on with the remaining references. The object's metadata is read through
  \<^verbatim>\<open>meta.Accessor\<close>, here \<open>ownerAccessor\<close>.
\<close>

theorem live_owner_waiting_or_solid:
  fixes e item reference
  defines "ns \<equiv> Namespace (identity item)"
    and "fqKind \<equiv> fromAPIVersionAndKind e (APIVersion reference) (Kind reference)"
  assumes "classifyReferences e item pre tr0 = (tr, Returns (c, None))"
    and "\<not> absentOwnerCache_Has e tr (UID reference)"
    and "tr1 = tr @ [AbsentOwnerCache_Has (UID reference)]"
    and "clientPool_ClientForGroupVersionKind e tr1 fqKind = Inr client"
    and "tr2 = tr1 @ [ClientPool_ClientForGroupVersionKind fqKind]"
    and "apiResource e tr2 (APIVersion reference) (Kind reference) (ns \<noteq> []) = Inr resource"
    and "tr3 = tr2 @ [ApiResource (APIVersion reference) (Kind reference) (ns \<noteq> [])]"
    and "resource_Get e tr3 client resource ns (Name reference) = (Some owner, None)"
    and "tr4 = tr3 @ [Resource_Get client resource ns (Name reference)]"
    and "GetUID owner = UID reference"
    and "accessor e owner = Inr ownerAccessor"
  shows "classifyReferences e item (pre @ reference # rest) tr0 =
     classified (classifyLoop e item rest tr4
       (if GetDeletionTimestamp ownerAccessor \<noteq> None \<and> FinalizerDeleteDependents \<in> set (GetFinalizers ownerAccessor)
        then c\<lparr>waiting := waiting c @ [reference]\<rparr>
        else c\<lparr>solid := solid c @ [reference]\<rparr>))"
  using assms
  by (simp add: classifyReferences_prefix classifyReference_def classifyOwner_def
      hasDeleteDependentsFinalizer_def)

theorem live_owner_waiting_or_solid_witness:
  "classifyReferences exampleCluster examplePod [ownerRef ''rs-live'' ''u-live''] []
     = (AbsentOwnerCache_Has ''u-live'' # fetchReplicaSet ''rs-live'',
        Returns (\<lparr>solid = [ownerRef ''rs-live'' ''u-live''], dangling = [], waiting = []\<rparr>, None))
   \<and> resource_Get exampleCluster
        (AbsentOwnerCache_Has ''u-live'' # fetchReplicaSet ''rs-live'' @
         [AbsentOwnerCache_Has ''u-cascading'',
          ClientPool_ClientForGroupVersionKind (GroupVersionKind [] ''v1'' ''ReplicaSet''),
          ApiResource ''v1'' ''ReplicaSet'' True])
        (Client (GroupVersionKind [] ''v1'' ''ReplicaSet'')) (APIResource ''ReplicaSet'' True)
        ''default'' ''rs-cascading''
     = (Some (cascadingObject ''u-cascading''), None)
   \<and> accessor exampleCluster (cascadingObject ''u-cascading'') = Inr (cascadingObject ''u-cascading'')
   \<and> GetDeletionTimestamp (cascadingObject ''u-cascading'') = Some 1
   \<and> GetFinalizers (cascadingObject ''u-cascading'') = [FinalizerDeleteDependents]
   \<and> classifyReferences exampleCluster examplePod
        [ownerRef ''rs-live'' ''u-live'', ownerRef ''rs-cascading'' ''u-cascading''] []
     = (AbsentOwnerCache_Has ''u-live'' # fetchReplicaSet ''rs-live'' @
        AbsentOwnerCache_Has ''u-cascading'' # fetchReplicaSet ''rs-cascading'',
        Returns (\<lparr>solid = [ownerRef ''rs-live'' ''u-live''], dangling = [],
                   waiting = [ownerRef ''rs-cascading'' ''u-cascading'']\<rparr>, None))"
proof -
  let ?r = "ownerRef ''rs-cascading'' ''u-cascading''"
  let ?tr = "AbsentOwnerCache_Has ''u-live'' # fetchReplicaSet ''rs-live''"
  let ?c = "\<lparr>solid = [ownerRef ''rs-live'' ''u-live''], dangling = [], waiting = []\<rparr>"
  let ?tr1 = "?tr @ [AbsentOwnerCache_Has (UID ?r)]"
  let ?fq = "fromAPIVersionAndKind exampleCluster (APIVersion ?r) (Kind ?r)"
  let ?tr2 = "?tr1 @ [ClientPool_ClientForGroupVersionKind ?fq]"
  let ?ns = "Namespace (identity examplePod)"
  let ?tr3 = "?tr2 @ [ApiResource (APIVersion ?r) (Kind ?r) (?ns \<noteq> [])]"
  let ?tr4 = "?tr3 @ [Resource_Get (Client rsKind) (APIResource ''ReplicaSet'' True) ?ns (Name ?r)]"
  have pre: "classifyReferences exampleCluster examplePod [ownerRef ''rs-live'' ''u-live''] []
      = (?tr, Returns (?c, None))"
    by (simp add: model_defs scenario_defs exampleCluster_def examplePod_def fetchReplicaSet_def)
  have miss: "\<not> absentOwnerCache_Has exampleCluster ?tr (UID ?r)"
    by (simp add: scenario_defs exampleCluster_def fetchReplicaSet_def)
  have client: "clientPool_ClientForGroupVersionKind exampleCluster ?tr1 ?fq = Inr (Client rsKind)"
    by (simp add: scenario_defs exampleCluster_def)
  have res: "apiResource exampleCluster ?tr2 (APIVersion ?r) (Kind ?r) (?ns \<noteq> [])
      = Inr (APIResource ''ReplicaSet'' True)"
    by (simp add: scenario_defs exampleCluster_def examplePod_def)
  have got: "resource_Get exampleCluster ?tr3 (Client rsKind) (APIResource ''ReplicaSet'' True) ?ns (Name ?r)
      = (Some (cascadingObject ''u-cascading''), None)"
    by (simp add: scenario_defs exampleCluster_def examplePod_def)
  have uid: "GetUID (cascadingObject ''u-cascading'') = UID ?r"
    by (simp add: scenario_defs)
  have acc: "accessor exampleCluster (cascadingObject ''u-cascading'') = Inr (cascadingObject ''u-cascading'')"
    by (simp add: scenario_defs exampleCluster_def)
  note live_owner_waiting_or_solid [OF pre miss refl client refl res refl got refl uid acc, of "[]"]
  then show ?thesis
    by (simp add: model_defs scenario_defs exampleCluster_def examplePod_def fetchReplicaSet_def)
qed

text \<open>
  When \<^verbatim>\<open>meta.Accessor\<close> returns an error for such an owner instead, the reference is
  put in no list and the classification stops with that error.
\<close>

lemma accessor_error_aborts:
  fixes e item reference
  defines "ns \<equiv> Namespace (identity item)"
    and "fqKind \<equiv> fromAPIVersionAndKind e (APIVersion reference) (Kind reference)"
  assumes "classifyReferences e item pre tr0 = (tr, Returns (c, None))"
    and "\<not> absentOwnerCache_Has e tr (UID reference)"
    and "tr1 = tr @ [AbsentOwnerCache_Has (UID reference)]"
    and "clientPool_ClientForGroupVersionKind e tr1 fqKind = Inr client"
    and "tr2 = tr1 @ [ClientPool_ClientForGroupVersionKind fqKind]"
    and "apiResource e tr2 (APIVersion reference) (Kind reference) (ns \<noteq> []) = Inr resource"
    and "tr3 = tr2 @ [ApiResource (APIVersion reference) (Kind reference) (ns \<noteq> [])]"
    and "resource_Get e tr3 client resource ns (Name reference) = (Some owner, None)"
    and "tr4 = tr3 @ [Resource_Get client resource ns (Name reference)]"
    and "GetUID owner = UID reference"
    and "accessor e owner = Inl err"
  shows "classifyReferences e item (pre @ reference # rest) tr0 = (tr4, Returns (c, Some err))"
  using assms
  by (simp add: classifyReferences_prefix classifyReference_def classifyOwner_def)

text \<open>
  Claim C2 asks that a reference whose \<^verbatim>\<open>Get\<close> is answered NotFound is added to the
  cache, classified dangling exactly once, and that the code after the \<^verbatim>\<open>Get\<close> is not
  reached. The NotFound branch of the source has no \<^verbatim>\<open>continue\<close>: after it the body
  reads the owner all the same.
\<close>

lemma classifyReference_NotFound:
  assumes "\<not> absentOwnerCache_Has e tr (UID reference)"
    and "tr1 = tr @ [AbsentOwnerCache_Has (UID reference)]"
    and "fqKind = fromAPIVersionAndKind e (APIVersion reference) (Kind reference)"
    and "clientPool_ClientForGroupVersionKind e tr1 fqKind = Inr client"
    and "tr2 = tr1 @ [ClientPool_ClientForGroupVersionKind fqKind]"
    and "namespaced = (Namespace (identity item) \<noteq> [])"
    and "apiResource e tr2 (APIVersion reference) (Kind reference) namespaced = Inr resource"
    and "tr3 = tr2 @ [ApiResource (APIVersion reference) (Kind reference) namespaced]"
    and "resource_Get e tr3 client resource (Namespace (identity item)) (Name reference)
           = (owner, Some err)"
    and "IsNotFound err"
    and "tr4 = tr3 @ [Resource_Get client resource (Namespace (identity item)) (Name reference)]"
  shows "classifyReference e item reference tr c =
     classifyOwner e reference owner (tr4 @ [AbsentOwnerCache_Add (UID reference)])
       (c\<lparr>dangling := dangling c @ [reference]\<rparr>)"
  using assms by (simp add: classifyReference_def)

text \<open>
  And reading the owner never leaves things as they were: it panics, returns an error, or
  adds the reference to a second list.
\<close>

lemma classifyOwner_not_skipped:
  "classifyOwner e reference owner tr c \<noteq> Continue tr c"
proof
  assume eq: "classifyOwner e reference owner tr c = Continue tr c"
  then obtain ownerObj where owner: "owner = Some ownerObj"
    by (cases owner) (auto simp: classifyOwner_def)
  show False
  proof (cases "GetUID ownerObj \<noteq> UID reference")
    case True
    with eq owner show False by (simp add: classifyOwner_def)
  next
    case False
    with eq owner obtain a where a: "accessor e ownerObj = Inr a"
      by (cases "accessor e ownerObj") (auto simp: classifyOwner_def)
    from eq owner False a have
      "c\<lparr>waiting := waiting c @ [reference]\<rparr> = c \<or> c\<lparr>solid := solid c @ [reference]\<rparr> = c"
      by (auto simp: classifyOwner_def split: if_splits)
    then show False
    proof
      assume "c\<lparr>waiting := waiting c @ [reference]\<rparr> = c"
      then have "waiting (c\<lparr>waiting := waiting c @ [reference]\<rparr>) = waiting c" by simp
      then show False by simp
    next
      assume "c\<lparr>solid := solid c @ [reference]\<rparr> = c"
      then have "solid (c\<lparr>solid := solid c @ [reference]\<rparr>) = solid c" by simp
      then show False by simp
    qed
  qed
qed

text \<open>
  Claim C2, at a reference to a ReplicaSet that does not exist. When the client returns a
  nil object beside the NotFound error, \<^verbatim>\<open>classifyReferences\<close> panics; when it returns
  an empty object, the UID of the reference differs from the empty one, and the reference
  is added to the cache and to \<^verbatim>\<open>dangling\<close> a second time.
\<close>

theorem not_found_falls_through:
  "classifyReferences (cluster [] None None None) examplePod [ownerRef ''rs-gone'' ''u-gone''] [] =
       (AbsentOwnerCache_Has ''u-gone'' # fetchReplicaSet ''rs-gone'' @ [AbsentOwnerCache_Add ''u-gone''],
        Panics)
   \<and> classifyReferences (cluster [] (Some (liveObject [] [])) None None) examplePod
        [ownerRef ''rs-gone'' ''u-gone''] [] =
       (AbsentOwnerCache_Has ''u-gone'' # fetchReplicaSet ''rs-gone'' @
          [AbsentOwnerCache_Add ''u-gone'', AbsentOwnerCache_Add ''u-gone''],
        Returns (\<lparr>solid = [],
                   dangling = [ownerRef ''rs-gone'' ''u-gone'', ownerRef ''rs-gone'' ''u-gone''],
                   waiting = []\<rparr>, None))"
  by (simp add: model_defs scenario_defs examplePod_def fetchReplicaSet_def)

section \<open>Processing an item\<close>

text \<open>
  Claim C7. When \<^verbatim>\<open>processItem\<close> fetches the item again (it is not an item that is
  being deleted without deleting its dependents) and the fetch is answered NotFound, or
  with an object whose UID is not the one the node records, then \<^verbatim>\<open>processItem\<close> adds
  to the graph-change queue a delete event that carries the identity of the node
  (apiVersion, kind, namespace, UID and name), makes no other call, and returns nil.
\<close>

theorem absent_item_emits_virtual_delete:
  assumes "\<not> (beingDeleted item \<and> \<not> deletingDependents item)"
    and "(\<exists>err. getObject e tr (identity item) = Inl err \<and> IsNotFound err)
       \<or> (\<exists>latest. getObject e tr (identity item) = Inr latest \<and> GetUID latest \<noteq> UID (identity item))"
  shows "processItem e item tr =
     (tr @ [GetObject (identity item),
            GraphChanges_Add \<lparr>eventType = deleteEvent,
              obj = MetadataOnlyObject
                (TypeMeta (APIVersion (identity item)) (Kind (identity item)))
                (ObjectMeta (Namespace (identity item)) (UID (identity item)) (Name (identity item))),
              oldObj = None\<rparr>],
      Returns None)"
  using assms
  by (auto simp: processItem_def generateVirtualDeleteEvent_def
      objectReferenceToMetadataOnlyObject_def)

theorem absent_item_emits_virtual_delete_witness:
  "getObject exampleCluster [] (podIdentity ''ghost'' ''u-ghost'') = Inl (NotFound ''ghost'')
   \<and> processItem exampleCluster (Node (podIdentity ''ghost'' ''u-ghost'') [] False False []) [] =
       ([GetObject (podIdentity ''ghost'' ''u-ghost''),
         GraphChanges_Add \<lparr>eventType = deleteEvent,
           obj = MetadataOnlyObject (TypeMeta ''v1'' ''Pod'') (ObjectMeta ''default'' ''u-ghost'' ''ghost''),
           oldObj = None\<rparr>],
        Returns None)
   \<and> GetUID (liveObject ''u-pod'' []) \<noteq> UID (podIdentity ''pod'' ''u-old'')
   \<and> processItem (cluster [(''pod'', liveObject ''u-pod'' [])] None None None)
        (Node (podIdentity ''pod'' ''u-old'') [] False False []) [] =
       ([GetObject (podIdentity ''pod'' ''u-old''),
         GraphChanges_Add \<lparr>eventType = deleteEvent,
           obj = MetadataOnlyObject (TypeMeta ''v1'' ''Pod'') (ObjectMeta ''default'' ''u-old'' ''pod''),
           oldObj = None\<rparr>],
        Returns None)"
proof -
  let ?ghost = "Node (podIdentity ''ghost'' ''u-ghost'') [] False False []"
  let ?old = "Node (podIdentity ''pod'' ''u-old'') [] False False []"
  let ?e = "cluster [(''pod'', liveObject ''u-pod'' [])] None None None"
  have g1: "\<not> (beingDeleted ?ghost \<and> \<not> deletingDependents ?ghost)" by simp
  have g2: "(\<exists>err. getObject exampleCluster [] (identity ?ghost) = Inl err \<and> IsNotFound err)
       \<or> (\<exists>latest. getObject exampleCluster [] (identity ?ghost) = Inr latest
            \<and> GetUID latest \<noteq> UID (identity ?ghost))"
    by (simp add: scenario_defs exampleCluster_def)
  have o1: "\<not> (beingDeleted ?old \<and> \<not> deletingDependents ?old)" by simp
  have o2: "(\<exists>err. getObject ?e [] (identity ?old) = Inl err \<and> IsNotFound err)
       \<or> (\<exists>latest. getObject ?e [] (identity ?old) = Inr latest
            \<and> GetUID latest \<noteq> UID (identity ?old))"
    by (simp add: scenario_defs)
  note absent_item_emits_virtual_delete [OF g1 g2] absent_item_emits_virtual_delete [OF o1 o2]
  then show ?thesis
    by (simp add: model_defs scenario_defs exampleCluster_def)
qed

text \<open>
  Claim C4. When the classification of the item's references yields at least one solid
  reference, \<^verbatim>\<open>processItem\<close> issues no delete: after the classification its one call is
  a patch of the item, preconditioned on the item's UID, that removes the owner references
  with exactly the UIDs of the dangling references followed by those of the waiting
  references, one for each, and what it returns is the error of that patch. This is more
  than the claim's "if any such references exist": the source sends the patch whether or
  not a reference is dangling or waiting, and with none the list of UIDs to remove is
  empty.
\<close>

theorem solid_owner_never_deleted:
  assumes "\<not> beingDeleted item" and "\<not> deletingDependents item"
    and "getObject e tr (identity item) = Inr latest"
    and "GetUID latest = UID (identity item)"
    and "GetOwnerReferences latest \<noteq> []"
    and "classifyReferences e item (GetOwnerReferences latest) (tr @ [GetObject (identity item)])
          = (tr2, Returns (c, None))"
    and "solid c \<noteq> []"
    and "p = deleteOwnerRefPatch (UID (identity item)) (map UID (dangling c) @ map UID (waiting c))"
  shows "processItem e item tr =
           (tr2 @ [PatchObject (identity item) p], Returns (patchObject e tr2 (identity item) p))
       \<and> \<not> list_ex isDelete (drop (length tr) (fst (processItem e item tr)))"
proof -
  have run: "processItem e item tr =
      (tr2 @ [PatchObject (identity item) p], Returns (patchObject e tr2 (identity item) p))"
    using assms by (simp add: processItem_classified decide_def Let_def ownerRefsToUIDs_map)
  obtain new where new: "tr2 = (tr @ [GetObject (identity item)]) @ new" "list_all classifierCall new"
    using classifyReferences_trace [OF assms(6)] by blast
  have "\<not> isDelete x" if "classifierCall x" for x
    using that by (cases x) auto
  with new(2) have "\<not> list_ex isDelete new"
    by (auto simp: list_all_iff list_ex_iff)
  with new(1) run show ?thesis by (simp add: list_ex_iff)
qed

theorem solid_owner_never_deleted_witness:
  "\<not> beingDeleted examplePod \<and> \<not> deletingDependents examplePod
   \<and> getObject staleCluster cachedAbsent (identity examplePod)
       = Inr (liveObject ''u-pod'' [ownerRef ''rs-live'' ''u-live'', ownerRef ''rs-gone'' ''u-gone'',
                ownerRef ''rs-lost'' ''u-lost'', ownerRef ''rs-cascading'' ''u-cascading'',
                ownerRef ''rs-draining'' ''u-draining''])
   \<and> classifyReferences staleCluster examplePod
        [ownerRef ''rs-live'' ''u-live'', ownerRef ''rs-gone'' ''u-gone'',
         ownerRef ''rs-lost'' ''u-lost'', ownerRef ''rs-cascading'' ''u-cascading'',
         ownerRef ''rs-draining'' ''u-draining'']
        (cachedAbsent @ [GetObject (identity examplePod)])
       = (cachedAbsent @ GetObject (identity examplePod) # AbsentOwnerCache_Has ''u-live'' #
            fetchReplicaSet ''rs-live'' @ AbsentOwnerCache_Has ''u-gone'' #
            AbsentOwnerCache_Has ''u-lost'' # AbsentOwnerCache_Has ''u-cascading'' #
            fetchReplicaSet ''rs-cascading'' @ AbsentOwnerCache_Has ''u-draining'' #
            fetchReplicaSet ''rs-draining'',
          Returns (\<lparr>solid = [ownerRef ''rs-live'' ''u-live''],
                     dangling = [ownerRef ''rs-gone'' ''u-gone'', ownerRef ''rs-lost'' ''u-lost''],
                     waiting = [ownerRef ''rs-cascading'' ''u-cascading'',
                                ownerRef ''rs-draining'' ''u-draining'']\<rparr>, None))
   \<and> processItem staleCluster examplePod cachedAbsent
       = (cachedAbsent @ GetObject (identity examplePod) # AbsentOwnerCache_Has ''u-live'' #
            fetchReplicaSet ''rs-live'' @ AbsentOwnerCache_Has ''u-gone'' #
            AbsentOwnerCache_Has ''u-lost'' # AbsentOwnerCache_Has ''u-cascading'' #
            fetchReplicaSet ''rs-cascading'' @ AbsentOwnerCache_Has ''u-draining'' #
            fetchReplicaSet ''rs-draining'' @
            [PatchObject (identity examplePod)
               (deleteOwnerRefPatch ''u-pod'' [''u-gone'', ''u-lost'', ''u-cascading'', ''u-draining''])],
          Returns None)"
proof -
  let ?latest = "liveObject ''u-pod'' [ownerRef ''rs-live'' ''u-live'', ownerRef ''rs-gone'' ''u-gone'',
                ownerRef ''rs-lost'' ''u-lost'', ownerRef ''rs-cascading'' ''u-cascading'',
                ownerRef ''rs-draining'' ''u-draining'']"
  let ?c = "\<lparr>solid = [ownerRef ''rs-live'' ''u-live''],
                     dangling = [ownerRef ''rs-gone'' ''u-gone'', ownerRef ''rs-lost'' ''u-lost''],
                     waiting = [ownerRef ''rs-cascading'' ''u-cascading'',
                                ownerRef ''rs-draining'' ''u-draining'']\<rparr>"
  let ?tr2 = "cachedAbsent @ GetObject (identity examplePod) # AbsentOwnerCache_Has ''u-live'' #
            fetchReplicaSet ''rs-live'' @ AbsentOwnerCache_Has ''u-gone'' #
            AbsentOwnerCache_Has ''u-lost'' # AbsentOwnerCache_Has ''u-cascading'' #
            fetchReplicaSet ''rs-cascading'' @ AbsentOwnerCache_Has ''u-draining'' #
            fetchReplicaSet ''rs-draining''"
  let ?p = "deleteOwnerRefPatch ''u-pod'' [''u-gone'', ''u-lost'', ''u-cascading'', ''u-draining'']"
  have a: "\<not> beingDeleted examplePod" and b: "\<not> deletingDependents examplePod"
    by (simp_all add: examplePod_def)
  have got: "getObject staleCluster cachedAbsent (identity examplePod) = Inr ?latest"
    by (simp add: scenario_defs staleCluster_def examplePod_def)
  have uid: "GetUID ?latest = UID (identity examplePod)"
    by (simp add: scenario_defs examplePod_def)
  have refs: "GetOwnerReferences ?latest \<noteq> []"
    by (simp add: scenario_defs)
  have cls: "classifyReferences staleCluster examplePod (GetOwnerReferences ?latest)
      (cachedAbsent @ [GetObject (identity examplePod)]) = (?tr2, Returns (?c, None))"
    by (simp add: classifyReferences_def classifyReference_def classifyOwner_def
        hasDeleteDependentsFinalizer_def scenario_defs staleCluster_def examplePod_def
        fetchReplicaSet_def cachedAbsent_def)
  have sol: "solid ?c \<noteq> []" by simp
  have p: "?p = deleteOwnerRefPatch (UID (identity examplePod))
      (map UID (dangling ?c) @ map UID (waiting ?c))"
    by (simp add: scenario_defs examplePod_def)
  have sent: "patchObject staleCluster ?tr2 (identity examplePod) ?p = None"
    by (simp add: scenario_defs staleCluster_def)
  from solid_owner_never_deleted [OF a b got uid refs cls sol p]
  have "processItem staleCluster examplePod cachedAbsent =
      (?tr2 @ [PatchObject (identity examplePod) ?p], Returns None)"
    by (simp only: sent)
  with a b got cls show ?thesis
    by (simp add: scenario_defs)
qed

text \<open>
  Claim C3, as the source has it. When no reference is solid, some reference is waiting
  and the item has dependents: if some dependent is deleting its dependents,
  \<^verbatim>\<open>processItem\<close> sends one patch, built by \<^verbatim>\<open>patchToUnblockOwnerReferences\<close> of the
  item and addressed to the item itself, however many such dependents there are; if
  building or sending the patch fails, the error is returned and nothing is deleted;
  otherwise, and when no dependent is deleting its dependents, the item is deleted with
  foreground propagation.
\<close>

theorem unblock_patches_item_itself:
  assumes "\<not> beingDeleted item" and "\<not> deletingDependents item"
    and "getObject e tr (identity item) = Inr latest"
    and "GetUID latest = UID (identity item)"
    and "GetOwnerReferences latest \<noteq> []"
    and "classifyReferences e item (GetOwnerReferences latest) (tr @ [GetObject (identity item)])
          = (tr2, Returns (c, None))"
    and "solid c = []" and "waiting c \<noteq> []" and "dependents item \<noteq> []"
  shows "processItem e item tr =
    (if list_ex deletingDependents (dependents item) then
       (case patchToUnblockOwnerReferences e item of
          Inl err \<Rightarrow> (tr2, Returns (Some err))
        | Inr p \<Rightarrow>
            (case patchObject e tr2 (identity item) p of
               Some err \<Rightarrow> (tr2 @ [PatchObject (identity item) p], Returns (Some err))
             | None \<Rightarrow>
                 (tr2 @ [PatchObject (identity item) p,
                         DeleteObject (identity item) DeletePropagationForeground],
                  Returns (deleteObject e (tr2 @ [PatchObject (identity item) p]) (identity item)
                             DeletePropagationForeground))))
     else (tr2 @ [DeleteObject (identity item) DeletePropagationForeground],
           Returns (deleteObject e tr2 (identity item) DeletePropagationForeground)))"
  using assms
  by (simp add: processItem_classified decide_def unblock_none unblock_some
      split: sum.splits option.splits)

theorem unblock_patches_item_itself_witness:
  "\<not> beingDeleted midPod \<and> \<not> deletingDependents midPod
   \<and> getObject cascadeCluster [] (identity midPod)
       = Inr (liveObject ''u-pod'' [ownerRef ''rs-cascading'' ''u-cascading''])
   \<and> classifyReferences cascadeCluster midPod [ownerRef ''rs-cascading'' ''u-cascading'']
        [GetObject (identity midPod)]
       = (GetObject (identity midPod) # AbsentOwnerCache_Has ''u-cascading'' # fetchReplicaSet ''rs-cascading'',
          Returns (\<lparr>solid = [], dangling = [],
                     waiting = [ownerRef ''rs-cascading'' ''u-cascading'']\<rparr>, None))
   \<and> list_ex deletingDependents (dependents midPod)
   \<and> processItem cascadeCluster midPod [] =
       (GetObject (identity midPod) # AbsentOwnerCache_Has ''u-cascading'' # fetchReplicaSet ''rs-cascading'' @
        [PatchObject (identity midPod)
           (unblockOwnerReferencesPatch ''u-pod'' [ownerRef ''rs-cascading'' ''u-cascading'']),
         DeleteObject (identity midPod) DeletePropagationForeground],
        Returns None)"
proof -
  let ?latest = "liveObject ''u-pod'' [ownerRef ''rs-cascading'' ''u-cascading'']"
  let ?c = "\<lparr>solid = [], dangling = [], waiting = [ownerRef ''rs-cascading'' ''u-cascading'']\<rparr>"
  let ?tr2 = "GetObject (identity midPod) # AbsentOwnerCache_Has ''u-cascading'' # fetchReplicaSet ''rs-cascading''"
  have a: "\<not> beingDeleted midPod" and b: "\<not> deletingDependents midPod"
    by (simp_all add: midPod_def)
  have got: "getObject cascadeCluster [] (identity midPod) = Inr ?latest"
    by (simp add: scenario_defs cascadeCluster_def midPod_def)
  have uid: "GetUID ?latest = UID (identity midPod)"
    by (simp add: scenario_defs midPod_def)
  have refs: "GetOwnerReferences ?latest \<noteq> []"
    by (simp add: scenario_defs)
  have cls: "classifyReferences cascadeCluster midPod (GetOwnerReferences ?latest)
      ([] @ [GetObject (identity midPod)]) = (?tr2, Returns (?c, None))"
    by (simp add: model_defs scenario_defs cascadeCluster_def midPod_def fetchReplicaSet_def)
  have sol: "solid ?c = []" and wai: "waiting ?c \<noteq> []" by simp_all
  have deps: "dependents midPod \<noteq> []" by (simp add: midPod_def)
  note unblock_patches_item_itself [OF a b got uid refs cls sol wai deps]
  then show ?thesis
    by (simp add: model_defs scenario_defs cascadeCluster_def midPod_def fetchReplicaSet_def)
qed

text \<open>
  Claim C3 as it is stated says that the owner references of the dependent are patched.
  For the pod \<open>midPod\<close>, whose dependent \<^verbatim>\<open>child\<close> is deleting its dependents, the one
  patch goes to the pod; no patch of the child is among the calls.
\<close>

theorem dependent_is_not_patched:
  "dependents midPod = [Node (podIdentity ''child'' ''u-child'') [] True True [ownerRef ''pod'' ''u-pod'']]
   \<and> fst (processItem cascadeCluster midPod []) =
       GetObject (podIdentity ''pod'' ''u-pod'') # AbsentOwnerCache_Has ''u-cascading'' #
       fetchReplicaSet ''rs-cascading'' @
       [PatchObject (podIdentity ''pod'' ''u-pod'')
          (unblockOwnerReferencesPatch ''u-pod'' [ownerRef ''rs-cascading'' ''u-cascading'']),
        DeleteObject (podIdentity ''pod'' ''u-pod'') DeletePropagationForeground]
   \<and> PatchObject (podIdentity ''child'' ''u-child'')
         (unblockOwnerReferencesPatch ''u-child'' [ownerRef ''pod'' ''u-pod''])
       \<notin> set (fst (processItem cascadeCluster midPod []))"
  by (simp add: model_defs scenario_defs cascadeCluster_def midPod_def fetchReplicaSet_def)

text \<open>
  Claim C5. \<^verbatim>\<open>processDeletingDependentsItem\<close> removes the finalizer
  \<^verbatim>\<open>FinalizerDeleteDependents\<close> from the item if and only if the item has no blocking
  dependent. If it has one, every blocking dependent that is not itself deleting its
  dependents is added to the delete-attempt queue, in order, nothing else is called (the
  node and its object are left alone), and nil is returned.
\<close>

theorem finalizer_removed_iff_unblocked:
  "(blockingDependents item = [] \<longrightarrow>
      processDeletingDependentsItem e item tr =
        (tr @ [RemoveFinalizer item FinalizerDeleteDependents],
         Returns (removeFinalizer e tr item FinalizerDeleteDependents)))
   \<and> (blockingDependents item \<noteq> [] \<longrightarrow>
      processDeletingDependentsItem e item tr =
        (tr @ map AttemptToDelete_Add
                (filter (\<lambda>dep. \<not> deletingDependents dep) (blockingDependents item)),
         Returns None))
   \<and> (list_ex isRemoveFinalizer (drop (length tr) (fst (processDeletingDependentsItem e item tr)))
        = (blockingDependents item = []))"
  by (auto simp: processDeletingDependentsItem_def enqueueBlocking_eq list_ex_iff Let_def)

theorem finalizer_removed_iff_unblocked_witness:
  "blockingDependents freeOwner = []
   \<and> processDeletingDependentsItem exampleCluster freeOwner [] =
       ([RemoveFinalizer freeOwner FinalizerDeleteDependents], Returns None)
   \<and> blockingDependents blockedOwner =
       [Node (podIdentity ''d1'' ''u-d1'') [] False False [ownerRef ''owner'' ''u-owner'']]
   \<and> processDeletingDependentsItem exampleCluster blockedOwner [] =
       ([AttemptToDelete_Add
          (Node (podIdentity ''d1'' ''u-d1'') [] False False [ownerRef ''owner'' ''u-owner''])],
        Returns None)"
  using finalizer_removed_iff_unblocked [of freeOwner exampleCluster "[]"] finalizer_removed_iff_unblocked [of blockedOwner exampleCluster "[]"]
  by (simp add: model_defs scenario_defs exampleCluster_def freeOwner_def blockedOwner_def)

section \<open>The orphan worker\<close>

text \<open>
  Claim C1 asks that a failed patch of a dependent makes \<^verbatim>\<open>orhpanDependents\<close> return an
  error, so that the owner is queued again and keeps its finalizer. The loop of the
  source collects the errors in \<^verbatim>\<open>errorsSlice\<close> but never appends to
  \<^verbatim>\<open>failedDependents\<close>, the slice it tests: \<^verbatim>\<open>orhpanDependents\<close> returns nil whatever
  the patches answered.
\<close>

lemma orphanLoop_failedDependents:
  "orphanLoop e owner deps (tr, failed, errs) = (tr', failed', errs') \<Longrightarrow> failed' = failed"
  by (induction deps arbitrary: tr errs) (auto simp: Let_def split: option.splits if_splits)

lemma orhpanDependents_returns_nil:
  "snd (orhpanDependents e owner deps tr) = None"
  by (auto simp: orhpanDependents_def split: prod.splits dest: orphanLoop_failedDependents)

text \<open>
  So the worker goes on to remove the orphan finalizer from every owner it dequeues.
\<close>

lemma attemptToOrphanWorker_removes_finalizer:
  assumes "orphanQueue_Get e tr = (Some owner, False)"
  shows "RemoveFinalizer owner FinalizerOrphanDependents \<in> set (fst (attemptToOrphanWorker e tr))"
proof -
  obtain tr2 where "orhpanDependents e (identity owner) (dependents owner) (tr @ [OrphanQueue_Get])
      = (tr2, None)"
    using orhpanDependents_returns_nil [of e "identity owner" "dependents owner" "tr @ [OrphanQueue_Get]"]
    by (metis prod.collapse)
  with assms show ?thesis
    by (simp add: attemptToOrphanWorker_def Let_def split: option.splits)
qed

text \<open>
  Claim C1, at an owner with one dependent whose patch is answered with a conflict:
  \<^verbatim>\<open>orhpanDependents\<close> returns nil, and the worker removes the orphan finalizer and does
  not queue the owner again.
\<close>

theorem orphan_failure_is_dropped:
  "patchObject conflictCluster [OrphanQueue_Get] (podIdentity ''pod'' ''u-pod'')
       (deleteOwnerRefPatch ''u-pod'' [''u-rs'']) = Some (StatusError ''conflict'')
   \<and> orhpanDependents conflictCluster (identity orphanedOwner) (dependents orphanedOwner)
       [OrphanQueue_Get] =
       ([OrphanQueue_Get,
         PatchObject (podIdentity ''pod'' ''u-pod'') (deleteOwnerRefPatch ''u-pod'' [''u-rs''])],
        None)
   \<and> attemptToOrphanWorker conflictCluster [] =
       ([OrphanQueue_Get,
         PatchObject (podIdentity ''pod'' ''u-pod'') (deleteOwnerRefPatch ''u-pod'' [''u-rs'']),
         RemoveFinalizer orphanedOwner FinalizerOrphanDependents,
         OrphanQueue_Done (Some orphanedOwner)],
        Returns ())"
  by (simp add: model_defs scenario_defs conflictCluster_def orphanedOwner_def)

end
